theory Spec2Isabelle
  imports Complex_Main
begin

section \<open>The game configuration of main.ts\<close>

text \<open>
  \<^verbatim>\<open>src/main.ts\<close> builds one object literal of type \<^verbatim>\<open>Phaser.Types.Core.GameConfig\<close> and
  hands it to \<^verbatim>\<open>new Phaser.Game\<close>. The literal is kept as the ordered list of its
  properties, so that the absence of a property is a fact about the list.
  \<^verbatim>\<open>BootScene\<close> and \<^verbatim>\<open>MenuScene\<close> are named by the architecture document only; the
  executable sources define \<^verbatim>\<open>GameScene\<close> alone.
\<close>

datatype scene_class = BootScene | MenuScene | GameScene

datatype renderer = AUTO

datatype config_value =
    Renderer renderer
  | Num int
  | Str string
  | Flag bool
  | Scenes "scene_class list"

type_synonym game_config = "(string \<times> config_value) list"

definition config :: game_config where
  "config =
     [(''type'', Renderer AUTO),
      (''width'', Num 1280),
      (''height'', Num 720),
      (''parent'', Str ''game''),
      (''pixelArt'', Flag True),
      (''backgroundColor'', Str ''#1a1a2e''),
      (''scene'', Scenes [GameScene])]"

definition property :: "game_config \<Rightarrow> string \<Rightarrow> config_value option" where
  "property c k = map_of c k"

definition propertyNames :: "game_config \<Rightarrow> string list" where
  "propertyNames c = map fst c"


section \<open>GameScene\<close>

text \<open>
  The scene class (\<^verbatim>\<open>export class GameScene extends Phaser.Scene\<close>). The part of the
  framework the scene touches is written as state: the display list that
  \<^verbatim>\<open>this.add.text\<close> appends to, the listeners of the keyboard plugin
  (\<^verbatim>\<open>this.input.keyboard\<close> has type \<^verbatim>\<open>KeyboardPlugin | null\<close>, hence the option), the
  browser console, and the scene the scene manager is running.
\<close>

record text_style =
  fontSize :: string
  color :: string
  fontFamily :: string

record text_object =
  text_x :: int
  text_y :: int
  content :: string
  style :: text_style
  originX :: real
  originY :: real

text \<open>
  What a callback may do to the state above: write a line to the console or ask the
  scene manager for another scene. Only \<open>ConsoleLog\<close> occurs in the sources.
\<close>

datatype stmt = ConsoleLog string | SceneStart scene_class

type_synonym listener = "string \<times> stmt list"

record scene =
  displayList :: "text_object list"
  keyboard :: "listener list option"
  console :: "string list"
  activeScene :: scene_class

definition newText :: "int \<Rightarrow> int \<Rightarrow> string \<Rightarrow> text_style \<Rightarrow> text_object" where
  "newText px py s st =
     \<lparr>text_x = px, text_y = py, content = s, style = st, originX = 0, originY = 0\<rparr>"

definition setOrigin :: "real \<Rightarrow> text_object \<Rightarrow> text_object" where
  "setOrigin v t = t\<lparr>originX := v, originY := v\<rparr>"

definition add :: "text_object \<Rightarrow> scene \<Rightarrow> scene" where
  "add t w = w\<lparr>displayList := displayList w @ [t]\<rparr>"

text \<open>\<^verbatim>\<open>this.input.keyboard?.on(event, handler)\<close>: nothing happens without the plugin.\<close>

definition keyboard_on :: "string \<Rightarrow> stmt list \<Rightarrow> scene \<Rightarrow> scene" where
  "keyboard_on ev h w =
     (case keyboard w of
        None \<Rightarrow> w
      | Some ls \<Rightarrow> w\<lparr>keyboard := Some (ls @ [(ev, h)])\<rparr>)"

definition titleText :: text_object where
  "titleText =
     setOrigin 0.5
       (newText 640 360 ''Claude Run''
          \<lparr>fontSize = ''64px'', color = ''#ffffff'', fontFamily = ''Arial''\<rparr>)"

definition promptText :: text_object where
  "promptText =
     setOrigin 0.5
       (newText 640 440 ''Press SPACE to start''
          \<lparr>fontSize = ''24px'', color = ''#888888'', fontFamily = ''Arial''\<rparr>)"

definition spaceHandler :: "stmt list" where
  "spaceHandler = [ConsoleLog ''Game starting...'']"


definition create :: "scene \<Rightarrow> scene" where
  "create w = keyboard_on ''keydown-SPACE'' spaceHandler (add promptText (add titleText w))"

definition update :: "real \<Rightarrow> real \<Rightarrow> scene \<Rightarrow> scene" where
  "update time delta w = w"

text \<open>Running a callback, and the keyboard plugin delivering an event to its listeners.\<close>

fun exec :: "stmt \<Rightarrow> scene \<Rightarrow> scene" where
  "exec (ConsoleLog s) w = w\<lparr>console := console w @ [s]\<rparr>"
| "exec (SceneStart k) w = w\<lparr>activeScene := k\<rparr>"

definition call :: "stmt list \<Rightarrow> scene \<Rightarrow> scene" where
  "call h w = foldl (\<lambda>w' s. exec s w') w h"

definition listeners :: "scene \<Rightarrow> listener list" where
  "listeners w = (case keyboard w of None \<Rightarrow> [] | Some ls \<Rightarrow> ls)"

definition emit :: "string \<Rightarrow> scene \<Rightarrow> scene" where
  "emit ev w = foldl (\<lambda>w' l. if fst l = ev then call (snd l) w' else w') w (listeners w)"

text \<open>
  What reaches a running scene from outside: a keyboard event, named as the plugin
  names it (\<^verbatim>\<open>keydown-SPACE\<close>), or a frame of the game loop, which calls
  \<^verbatim>\<open>update(time, delta)\<close>.
\<close>

datatype event = Key string | Frame real real

fun deliver :: "event \<Rightarrow> scene \<Rightarrow> scene" where
  "deliver (Key ev) w = emit ev w"
| "deliver (Frame t d) w = update t d w"

definition deliverAll :: "event list \<Rightarrow> scene \<Rightarrow> scene" where
  "deliverAll es w = foldl (\<lambda>w' e. deliver e w') w es"

text \<open>A scene as the scene manager hands it to \<^verbatim>\<open>create\<close>, with or without a keyboard plugin.\<close>

definition fresh :: "bool \<Rightarrow> scene" where
  "fresh kb =
     \<lparr>displayList = [], keyboard = (if kb then Some [] else None), console = [],
      activeScene = GameScene\<rparr>"

definition spacePresses :: "event list \<Rightarrow> nat" where
  "spacePresses es = length (filter (\<lambda>e. e = Key ''keydown-SPACE'') es)"



section \<open>The architecture document: Player, PLAYER_CONFIG and the update sketch\<close>

text \<open>
  The architecture document carries three pieces of code. The \<^verbatim>\<open>Player\<close> class
  declares \<^verbatim>\<open>x\<close>, \<^verbatim>\<open>y\<close>, \<^verbatim>\<open>velocity: { x; y }\<close> and \<^verbatim>\<open>grounded\<close> (and a sprite, which is
  rendering); the fields are \<open>pos_x\<close>, \<open>pos_y\<close>, \<open>vel_x\<close>, \<open>vel_y\<close> and \<open>grounded\<close> here.
  A TypeScript \<^verbatim>\<open>number\<close> is a real: rounding is not modelled.
\<close>

record player =
  pos_x :: real
  pos_y :: real
  vel_x :: real
  vel_y :: real
  grounded :: bool

record movementConfig =
  MOVE_SPEED :: real
  ACCELERATION :: real
  FRICTION :: real
  GRAVITY :: real
  JUMP_VELOCITY :: real
  MAX_FALL_SPEED :: real
  COYOTE_TIME :: real
  JUMP_BUFFER :: real

definition PLAYER_CONFIG :: movementConfig where
  "PLAYER_CONFIG =
     \<lparr>MOVE_SPEED = 200, ACCELERATION = 1500, FRICTION = 2000,
      GRAVITY = 1200, JUMP_VELOCITY = - 400, MAX_FALL_SPEED = 600,
      COYOTE_TIME = 100, JUMP_BUFFER = 100\<rparr>"

text \<open>
  The sketch \<^verbatim>\<open>function update(delta)\<close> under "Movement resolution order", named
  \<open>player_update\<close> here since GameScene has an \<^verbatim>\<open>update\<close> of its own. It reads the
  constant \<^verbatim>\<open>GRAVITY\<close> and calls \<^verbatim>\<open>this.moveX\<close> and \<^verbatim>\<open>this.moveY\<close>, which the document
  does not define: they are parameters, and may read and write the whole object. The
  argument of \<^verbatim>\<open>moveY\<close> is evaluated after \<^verbatim>\<open>moveX\<close> has returned.
\<close>

definition player_update ::
  "movementConfig \<Rightarrow> (real \<Rightarrow> 'a player_scheme \<Rightarrow> 'a player_scheme) \<Rightarrow>
   (real \<Rightarrow> 'a player_scheme \<Rightarrow> 'a player_scheme) \<Rightarrow> real \<Rightarrow>
   'a player_scheme \<Rightarrow> 'a player_scheme" where
  "player_update cfg moveX moveY delta p =
     (let p1 = p\<lparr>vel_y := vel_y p + GRAVITY cfg * delta\<rparr>;
          p2 = moveX (vel_x p1 * delta) p1;
          p3 = moveY (vel_y p2 * delta) p2
      in p3)"

text \<open>
  An instance of the two parameters that only records the call and its argument, to
  observe the order of the calls.
\<close>

datatype call_record = MoveX real | MoveY real

record traced_player = player +
  calls :: "call_record list"

definition logMoveX :: "real \<Rightarrow> traced_player \<Rightarrow> traced_player" where
  "logMoveX d p = p\<lparr>calls := calls p @ [MoveX d]\<rparr>"

definition logMoveY :: "real \<Rightarrow> traced_player \<Rightarrow> traced_player" where
  "logMoveY d p = p\<lparr>calls := calls p @ [MoveY d]\<rparr>"


section \<open>The movement core of the specification\<close>

text \<open>
  The repository implements none of TileQuery, InputIntent, KinematicBody,
  MotionIntegrator, CollisionResolver, JumpAssist and MovementController: the
  specification describes them in its sections 3 and 4 as the design to be built. Each
  definition of this section follows those sentences and says which.
\<close>

text \<open>
  Modelled from the spec: the KinematicBody of section 3 (no such type is in the
  sources). Position, velocity and grounded are the fields of \<open>player\<close>; size is
  \<open>width\<close> and \<open>height\<close>; the two timers hold milliseconds.
\<close>

record kinematicBody = player +
  width :: real
  height :: real
  coyoteTimer :: real
  jumpBufferTimer :: real

text \<open>
  Modelled from the spec: the InputIntent of section 2 (no such type is in the
  sources), "move-left, move-right, jump-held, jump-just-pressed,
  jump-just-released, down-held".
\<close>

record intent =
  moveLeft :: bool
  moveRight :: bool
  jumpHeld :: bool
  jumpJustPressed :: bool
  jumpJustReleased :: bool
  downHeld :: bool

text \<open>
  Modelled from the spec: the TileQuery of sections 3 and 6 (absent from the sources),
  \<^verbatim>\<open>isSolid(worldX, worldY) -> bool\<close>.
\<close>

type_synonym tileQuery = "real \<Rightarrow> real \<Rightarrow> bool"

text \<open>
  Modelled from the spec: the two lengths the CollisionResolver of section 4.2 needs and
  the MovementConfig of section 6 does not hold (absent from the sources): the side of
  a tile (\<^verbatim>\<open>TILE_SIZE\<close> in section 8) and the margin by which the sample points are inset
  from the corners ("e.g., 2 units").
\<close>

record tileGrid =
  TILE_SIZE :: real
  INSET :: real

text \<open>
  Modelled from the spec: the \<^verbatim>\<open>axis\<close> argument of \<^verbatim>\<open>resolveAxis\<close> (absent from the sources),
  X or Y.
\<close>

datatype axis = AxisX | AxisY

subsection \<open>JumpAssist (section 4.3)\<close>

text \<open>
  Modelled from the spec: the saturating decrement of the JumpAssist timers (absent from
  the sources), "decremented by \<Delta>t, floored at 0". The spec subtracts \<Delta>t from the
  timer as it is given, and so does this.
\<close>

definition countDown :: "real \<Rightarrow> real \<Rightarrow> real" where
  "countDown t dt = max 0 (t - dt)"

text \<open>
  Modelled from the spec: the timer update of JumpAssist (absent from the sources). The
  coyote timer is "set to COYOTE_TIME whenever grounded is true at the start of the
  tick; otherwise decremented", the jump-buffer timer is "set to JUMP_BUFFER whenever
  intent.jumpJustPressed is true this tick; otherwise decremented".
\<close>

definition updateTimers ::
  "movementConfig \<Rightarrow> bool \<Rightarrow> intent \<Rightarrow> real \<Rightarrow> kinematicBody \<Rightarrow> kinematicBody" where
  "updateTimers cfg wasGrounded i dt b =
     b\<lparr>coyoteTimer :=
         (if wasGrounded then COYOTE_TIME cfg else countDown (coyoteTimer b) dt),
       jumpBufferTimer :=
         (if jumpJustPressed i then JUMP_BUFFER cfg else countDown (jumpBufferTimer b) dt)\<rparr>"

text \<open>
  Modelled from the spec: \<^verbatim>\<open>canJump\<close> of JumpAssist (absent from the sources), "true iff
  grounded OR coyoteTimer > 0".
\<close>

definition canJump :: "kinematicBody \<Rightarrow> bool" where
  "canJump b = (grounded b \<or> 0 < coyoteTimer b)"

subsection \<open>MotionIntegrator (section 4.1)\<close>

text \<open>
  Modelled from the spec: the clamped linear step of the MotionIntegrator (absent from
  the sources): "if the step would cross the target, snap exactly to target", and
  move by the step toward the target otherwise.
\<close>

definition approach :: "real \<Rightarrow> real \<Rightarrow> real \<Rightarrow> real" where
  "approach v target step =
     (if \<bar>target - v\<bar> \<le> step then target
      else if v < target then v + step
      else v - step)"

text \<open>
  Modelled from the spec: the horizontal target of the MotionIntegrator (absent from the
  sources), "\<plusminus>MOVE_SPEED based on left/right intent (right takes precedence if both
  held, or zero if neither)".
\<close>

definition targetVelocity :: "movementConfig \<Rightarrow> intent \<Rightarrow> real" where
  "targetVelocity cfg i =
     (if moveRight i then MOVE_SPEED cfg
      else if moveLeft i then - MOVE_SPEED cfg
      else 0)"

text \<open>
  Modelled from the spec: the horizontal rule of the MotionIntegrator (absent from the
  sources), "velocity.x moves toward target at ACCELERATION\<cdot>\<Delta>t when target \<noteq> 0, else
  toward zero at FRICTION\<cdot>\<Delta>t".
\<close>

definition horizontal :: "movementConfig \<Rightarrow> intent \<Rightarrow> real \<Rightarrow> real \<Rightarrow> real" where
  "horizontal cfg i dt v =
     (let target = targetVelocity cfg i
      in if target \<noteq> 0 then approach v target (ACCELERATION cfg * dt)
         else approach v 0 (FRICTION cfg * dt))"

text \<open>
  Modelled from the spec: the vertical rule of the MotionIntegrator (absent from the
  sources), "velocity.y += GRAVITY\<cdot>\<Delta>t, then clamp to \<le> MAX_FALL_SPEED".
\<close>

definition applyGravity :: "movementConfig \<Rightarrow> real \<Rightarrow> real \<Rightarrow> real" where
  "applyGravity cfg dt v = min (v + GRAVITY cfg * dt) (MAX_FALL_SPEED cfg)"

text \<open>
  Modelled from the spec: the jump trigger of the MotionIntegrator (absent from the
  sources), "if intent.jumpJustPressed and JumpAssist says a jump is currently
  allowed: velocity.y = JUMP_VELOCITY, grounded := false, consume the jump (reset both
  coyote and buffer timers to zero)".
\<close>

definition jumpTrigger :: "movementConfig \<Rightarrow> intent \<Rightarrow> kinematicBody \<Rightarrow> kinematicBody" where
  "jumpTrigger cfg i b =
     (if jumpJustPressed i \<and> canJump b
      then b\<lparr>vel_y := JUMP_VELOCITY cfg, grounded := False,
             coyoteTimer := 0, jumpBufferTimer := 0\<rparr>
      else b)"

text \<open>
  Modelled from the spec: the variable jump height of the MotionIntegrator (absent from
  the sources), "if intent.jumpJustReleased and velocity.y < 0: velocity.y *= 0.5".
\<close>

definition cutJump :: "intent \<Rightarrow> kinematicBody \<Rightarrow> kinematicBody" where
  "cutJump i b =
     (if jumpJustReleased i \<and> vel_y b < 0 then b\<lparr>vel_y := vel_y b * 0.5\<rparr> else b)"

text \<open>
  Modelled from the spec: \<^verbatim>\<open>integrate(body, intent, config, deltaSeconds)\<close> (absent from
  the sources), the four rules of section 4.1 in the order the section lists them:
  horizontal, vertical, jump trigger, variable height. The position is not touched.
\<close>

definition integrate ::
  "kinematicBody \<Rightarrow> intent \<Rightarrow> movementConfig \<Rightarrow> real \<Rightarrow> kinematicBody" where
  "integrate b i cfg dt =
     (let b1 = b\<lparr>vel_x := horizontal cfg i dt (vel_x b)\<rparr>;
          b2 = b1\<lparr>vel_y := applyGravity cfg dt (vel_y b1)\<rparr>;
          b3 = jumpTrigger cfg i b2
      in cutJump i b3)"


subsection \<open>CollisionResolver (section 4.2)\<close>

text \<open>
  Modelled from the spec: the three sample coordinates of the CollisionResolver (absent
  from the sources), "near-start, midpoint, near-end of the perpendicular dimension,
  each inset by a small margin from the true corner". \<open>start\<close> and \<open>extent\<close> are the
  position and the size of the body on the perpendicular axis.
\<close>

definition samplePoints :: "real \<Rightarrow> real \<Rightarrow> real \<Rightarrow> real list" where
  "samplePoints inset start extent =
     [start + inset, start + extent / 2, start + extent - inset]"

text \<open>
  Modelled from the spec: the leading edge of the CollisionResolver (absent from the
  sources), "the edge in the direction of motion" of the hitbox at its tentative
  position \<open>p\<close>: the far side when the displacement is positive, the near side when it
  is negative.
\<close>

definition leadingEdge :: "real \<Rightarrow> real \<Rightarrow> real \<Rightarrow> real" where
  "leadingEdge p extent d = (if 0 < d then p + extent else p)"

text \<open>
  Modelled from the spec: the index of the grid cell that holds a world coordinate
  (absent from the sources); cell \<open>k\<close> spans \<open>k \<cdot> TILE_SIZE\<close> up to, not including,
  \<open>(k + 1) \<cdot> TILE_SIZE\<close>.
\<close>

definition cellOf :: "real \<Rightarrow> real \<Rightarrow> int" where
  "cellOf ts c = \<lfloor>c / ts\<rfloor>"

text \<open>
  Modelled from the spec: the snap of the CollisionResolver (absent from the sources),
  "the position on that axis is snapped to the boundary of the tile grid cell adjacent
  to the direction of travel": for a positive displacement the body's far side is put
  on the near boundary of the cell that holds the sampled edge (section 8:
  \<^verbatim>\<open>wallTileX \<cdot> TILE_SIZE - bodyWidth\<close>), for a negative one its near side is put on the
  far boundary of that cell.
\<close>

definition snap :: "real \<Rightarrow> real \<Rightarrow> real \<Rightarrow> real \<Rightarrow> real" where
  "snap ts edge extent d =
     (if 0 < d then of_int (cellOf ts edge) * ts - extent
      else (of_int (cellOf ts edge) + 1) * ts)"

text \<open>
  Modelled from the spec: the test of the CollisionResolver (absent from the sources),
  "if any sampled point resolves to a solid tile via TileQuery"; \<open>solidAt\<close> is the query
  with the leading edge's coordinate already supplied.
\<close>

definition anySolid :: "(real \<Rightarrow> bool) \<Rightarrow> real list \<Rightarrow> bool" where
  "anySolid solidAt ps = list_ex solidAt ps"

text \<open>
  Modelled from the spec: the coordinate of the leading edge once the displacement is
  "tentatively applied to the position on the given axis" (absent from the sources).
\<close>

definition tentativeEdge :: "kinematicBody \<Rightarrow> axis \<Rightarrow> real \<Rightarrow> real" where
  "tentativeEdge b ax d =
     (case ax of
        AxisX \<Rightarrow> leadingEdge (pos_x b + d) (width b) d
      | AxisY \<Rightarrow> leadingEdge (pos_y b + d) (height b) d)"

text \<open>
  Modelled from the spec: the single test of the CollisionResolver (absent from the
  sources): the three sample points lie on the leading edge at its tentative place and
  are spread along the perpendicular dimension of the body.
\<close>

definition collides :: "tileGrid \<Rightarrow> kinematicBody \<Rightarrow> tileQuery \<Rightarrow> axis \<Rightarrow> real \<Rightarrow> bool" where
  "collides g b q ax d =
     (case ax of
        AxisX \<Rightarrow>
          anySolid (\<lambda>s. q (tentativeEdge b AxisX d) s)
            (samplePoints (INSET g) (pos_y b) (height b))
      | AxisY \<Rightarrow>
          anySolid (\<lambda>s. q s (tentativeEdge b AxisY d))
            (samplePoints (INSET g) (pos_x b) (width b)))"

text \<open>
  Modelled from the spec: \<^verbatim>\<open>resolveAxis(body, tileQuery, axis, displacement)\<close> (absent
  from the sources). Zero displacement "performs no query and is a no-op"; otherwise
  the leading edge is sampled once at its tentative place, a hit snaps the position and
  zeroes the velocity on that axis, and no hit lets the displacement stand. On the Y
  axis "a downward collision sets grounded = true; an upward collision does not affect
  grounded; no collision on Y (free fall) sets grounded = false".
\<close>

definition resolveAxis ::
  "tileGrid \<Rightarrow> kinematicBody \<Rightarrow> tileQuery \<Rightarrow> axis \<Rightarrow> real \<Rightarrow> kinematicBody" where
  "resolveAxis g b q ax d =
     (if d = 0 then b
      else case ax of
        AxisX \<Rightarrow>
          (if collides g b q AxisX d
           then b\<lparr>pos_x := snap (TILE_SIZE g) (tentativeEdge b AxisX d) (width b) d,
                  vel_x := 0\<rparr>
           else b\<lparr>pos_x := pos_x b + d\<rparr>)
      | AxisY \<Rightarrow>
          (if collides g b q AxisY d
           then b\<lparr>pos_y := snap (TILE_SIZE g) (tentativeEdge b AxisY d) (height b) d,
                  vel_y := 0,
                  grounded := (if 0 < d then True else grounded b)\<rparr>
           else b\<lparr>pos_y := pos_y b + d, grounded := False\<rparr>))"

subsection \<open>MovementController (section 4.4)\<close>

text \<open>
  Modelled from the spec: the buffered-jump reconciliation, step 6 of the tick (absent
  from the sources): "if grounded becomes true (landing) and jumpBufferTimer > 0",
  "override velocity.y = JUMP_VELOCITY and re-run nothing further this tick", and
  "jumpBufferTimer resets to 0". Landing is: not grounded when the tick began,
  grounded after resolution.
\<close>

definition reconcile :: "movementConfig \<Rightarrow> bool \<Rightarrow> kinematicBody \<Rightarrow> kinematicBody" where
  "reconcile cfg wasGrounded b =
     (if \<not> wasGrounded \<and> grounded b \<and> 0 < jumpBufferTimer b
      then b\<lparr>vel_y := JUMP_VELOCITY cfg, jumpBufferTimer := 0\<rparr>
      else b)"

text \<open>
  Modelled from the spec: steps 1 to 3 of the tick (absent from the sources): record
  \<^verbatim>\<open>wasGrounded\<close>, update the JumpAssist timers, run the MotionIntegrator.
\<close>

definition proposeVelocity ::
  "kinematicBody \<Rightarrow> intent \<Rightarrow> movementConfig \<Rightarrow> real \<Rightarrow> kinematicBody" where
  "proposeVelocity b i cfg dt =
     (let wasGrounded = grounded b;
          b1 = updateTimers cfg wasGrounded i dt b
      in integrate b1 i cfg dt)"




text \<open>
  Modelled from the spec: the "zero input intent" of section 8 (absent from the
  sources): nothing held, nothing pressed, nothing released.
\<close>

definition noIntent :: intent where
  "noIntent =
     \<lparr>moveLeft = False, moveRight = False, jumpHeld = False, jumpJustPressed = False,
      jumpJustReleased = False, downHeld = False\<rparr>"



subsection \<open>Tiles and overlap (sections 3 and 8)\<close>




subsection \<open>The scene of the scenarios of section 8\<close>



text \<open>
  Modelled from the spec: the body of the end-to-end scenario (absent from the sources),
  size (12, 14), grounded, at rest, its bottom edge on the top of the tile row at
  y = 48, hence \<open>pos_y = 34\<close>; the coyote timer is full and no jump is buffered.
\<close>

definition standing :: kinematicBody where
  "standing =
     \<lparr>pos_x = 0, pos_y = 34, vel_x = 0, vel_y = 0, grounded = True,
      width = 12, height = 14, coyoteTimer = 100, jumpBufferTimer = 0\<rparr>"




subsection \<open>Predicates of the testable properties (section 8)\<close>






section \<open>Results on the executable sources\<close>

lemma create_fields:
  "displayList (create w) = displayList w @ [titleText, promptText]"
  "keyboard (create w) =
     map_option (\<lambda>ls. ls @ [(''keydown-SPACE'', spaceHandler)]) (keyboard w)"
  "console (create w) = console w"
  "activeScene (create w) = activeScene w"
  by (simp_all add: create_def keyboard_on_def add_def split: option.splits)

text \<open>
  Claim C10. The game configuration of main.ts registers exactly one scene, GameScene,
  sets width 1280, height 720 and pixelArt true, and has no physics property.
\<close>

theorem main_config_one_scene_no_physics:
  "property config ''scene'' = Some (Scenes [GameScene]) \<and>
   property config ''width'' = Some (Num 1280) \<and>
   property config ''height'' = Some (Num 720) \<and>
   property config ''pixelArt'' = Some (Flag True) \<and>
   property config ''physics'' = None \<and>
   ''physics'' \<notin> set (propertyNames config)"
  by (simp add: property_def propertyNames_def config_def)




lemma emit_after_create:
  assumes "keyboard w = keyboard (create (fresh kb))"
  shows "emit ev w =
     w\<lparr>console := console w @
         (if kb \<and> ev = ''keydown-SPACE'' then [''Game starting...''] else [])\<rparr>"
  using assms
  by (cases kb)
    (simp_all add: emit_def listeners_def create_fields fresh_def call_def spaceHandler_def)

lemma deliver_after_create:
  assumes "keyboard w = keyboard (create (fresh kb))"
  shows "deliver e w =
     w\<lparr>console := console w @
         (if kb \<and> e = Key ''keydown-SPACE'' then [''Game starting...''] else [])\<rparr>"
  using assms by (cases e) (simp_all add: emit_after_create update_def)

lemma deliverAll_after_create:
  assumes "keyboard w = keyboard (create (fresh kb))"
  shows "deliverAll es w =
     w\<lparr>console := console w @
         replicate (if kb then spacePresses es else 0) ''Game starting...''\<rparr>"
  using assms
proof (induction es arbitrary: w)
  case Nil
  then show ?case by (simp add: deliverAll_def spacePresses_def)
next
  case (Cons e es)
  let ?w = "deliver e w"
  have k: "keyboard ?w = keyboard (create (fresh kb))"
    using Cons.prems by (simp add: deliver_after_create)
  have "deliverAll (e # es) w = deliverAll es ?w"
    by (simp add: deliverAll_def)
  also have "\<dots> =
      ?w\<lparr>console := console ?w @
          replicate (if kb then spacePresses es else 0) ''Game starting...''\<rparr>"
    using Cons.IH [OF k] .
  finally show ?case
    using Cons.prems by (simp add: deliver_after_create spacePresses_def)
qed

text \<open>
  Claim C9. After \<^verbatim>\<open>create\<close> has run on a scene, whatever keyboard events and frames
  reach it, the display list, the listeners and the running scene stay as \<^verbatim>\<open>create\<close>
  left them: each \<^verbatim>\<open>keydown-SPACE\<close> adds the line \<^verbatim>\<open>Game starting...\<close> to the console and
  nothing else, no scene is started, and \<^verbatim>\<open>update\<close> changes nothing for any time and
  delta.
\<close>

theorem events_touch_console_only:
  "deliverAll es (create (fresh kb)) =
     (create (fresh kb))
       \<lparr>console := replicate (if kb then spacePresses es else 0) ''Game starting...''\<rparr> \<and>
   emit ''keydown-SPACE'' (create (fresh kb)) =
     (create (fresh kb))\<lparr>console := (if kb then [''Game starting...''] else [])\<rparr> \<and>
   update t d (create (fresh kb)) = create (fresh kb)"
  using deliverAll_after_create [of "create (fresh kb)" kb es]
    emit_after_create [of "create (fresh kb)" kb "''keydown-SPACE''"]
  by (simp add: create_fields fresh_def update_def)

theorem events_touch_console_only_witness:
  "activeScene
     (deliverAll [Key ''keydown-SPACE'', Frame 16 16, Key ''keydown-A'', Key ''keydown-SPACE'']
        (create (fresh True))) = GameScene \<and>
   console
     (deliverAll [Key ''keydown-SPACE'', Frame 16 16, Key ''keydown-A'', Key ''keydown-SPACE'']
        (create (fresh True))) = [''Game starting...'', ''Game starting...'']"
  using events_touch_console_only
    [of "[Key ''keydown-SPACE'', Frame 16 16, Key ''keydown-A'', Key ''keydown-SPACE'']" True 0 0]
  by (simp add: spacePresses_def create_fields fresh_def numeral_2_eq_2)


section \<open>Results on the update sketch of the architecture document\<close>

text \<open>
  Claim C3. Every call of the update sketch first adds gravity to velocity.y, then
  resolves the X axis (\<^verbatim>\<open>moveX\<close>), then the Y axis (\<^verbatim>\<open>moveY\<close>), whatever the two
  resolvers do and for every delta and state: \<^verbatim>\<open>moveY\<close> runs on the state \<^verbatim>\<open>moveX\<close>
  returned, \<^verbatim>\<open>moveX\<close> on the state with gravity applied, and the recorded calls are X
  then Y, the Y displacement already holding the gravity of this call.
\<close>

theorem update_gravity_then_x_then_y:
  "player_update cfg moveX moveY delta p =
     moveY
       (vel_y (moveX (vel_x p * delta) (p\<lparr>vel_y := vel_y p + GRAVITY cfg * delta\<rparr>)) * delta)
       (moveX (vel_x p * delta) (p\<lparr>vel_y := vel_y p + GRAVITY cfg * delta\<rparr>)) \<and>
   calls (player_update cfg logMoveX logMoveY delta r) =
     calls r @ [MoveX (vel_x r * delta), MoveY ((vel_y r + GRAVITY cfg * delta) * delta)]"
  by (simp add: player_update_def logMoveX_def logMoveY_def Let_def)

theorem update_gravity_then_x_then_y_witness:
  "calls (player_update PLAYER_CONFIG logMoveX logMoveY (1 / 2)
     \<lparr>pos_x = 0, pos_y = 0, vel_x = 200, vel_y = 0, grounded = False, calls = []\<rparr>) =
   [MoveX 100, MoveY 300]"
  using update_gravity_then_x_then_y
    [of PLAYER_CONFIG logMoveX logMoveY "1 / 2"
        "\<lparr>pos_x = 0, pos_y = 0, vel_x = 200, vel_y = 0, grounded = False, calls = []\<rparr>"
        "\<lparr>pos_x = 0, pos_y = 0, vel_x = 200, vel_y = 0, grounded = False, calls = []\<rparr>"]
  by (simp add: PLAYER_CONFIG_def logMoveX_def logMoveY_def)

lemma update_sketch_has_no_clamp:
  "vel_y (player_update PLAYER_CONFIG (\<lambda>d p. p) (\<lambda>d p. p) (1 / 60)
     \<lparr>pos_x = 0, pos_y = 0, vel_x = 0, vel_y = 600, grounded = False\<rparr>) = 620"
  by (simp add: player_update_def PLAYER_CONFIG_def Let_def)


section \<open>Results on the movement core of the specification\<close>



subsection \<open>The stages of a tick\<close>

lemma integrate_as_cut:
  "integrate b i cfg dt =
     cutJump i (jumpTrigger cfg i
       (b\<lparr>vel_x := horizontal cfg i dt (vel_x b),
          vel_y := applyGravity cfg dt (vel_y b)\<rparr>))"
  by (simp add: integrate_def Let_def)

lemma horizontal_release [simp]:
  "horizontal cfg (i\<lparr>jumpJustReleased := r\<rparr>) dt v = horizontal cfg i dt v"
  by (simp add: horizontal_def targetVelocity_def)

lemma jumpTrigger_release [simp]:
  "jumpTrigger cfg (i\<lparr>jumpJustReleased := r\<rparr>) b = jumpTrigger cfg i b"
  by (simp add: jumpTrigger_def)


lemma cutJump_frame [simp]:
  "coyoteTimer (cutJump i b) = coyoteTimer b"
  "jumpBufferTimer (cutJump i b) = jumpBufferTimer b"
  "grounded (cutJump i b) = grounded b"
  by (simp_all add: cutJump_def)

lemma resolveAxis_timers [simp]:
  "coyoteTimer (resolveAxis g b q ax d) = coyoteTimer b"
  "jumpBufferTimer (resolveAxis g b q ax d) = jumpBufferTimer b"
  by (simp_all add: resolveAxis_def split: axis.splits)

lemma resolveAxis_size [simp]:
  "width (resolveAxis g b q ax d) = width b"
  "height (resolveAxis g b q ax d) = height b"
  by (simp_all add: resolveAxis_def split: axis.splits)

lemma resolveY_keeps_x [simp]:
  "pos_x (resolveAxis g b q AxisY d) = pos_x b"
  "vel_x (resolveAxis g b q AxisY d) = vel_x b"
  by (simp_all add: resolveAxis_def)

lemma reconcile_frame [simp]:
  "pos_x (reconcile cfg w b) = pos_x b"
  "pos_y (reconcile cfg w b) = pos_y b"
  "width (reconcile cfg w b) = width b"
  "height (reconcile cfg w b) = height b"
  "vel_x (reconcile cfg w b) = vel_x b"
  "coyoteTimer (reconcile cfg w b) = coyoteTimer b"
  by (simp_all add: reconcile_def)

lemma proposeVelocity_frame [simp]:
  "pos_x (proposeVelocity b i cfg dt) = pos_x b"
  "pos_y (proposeVelocity b i cfg dt) = pos_y b"
  "width (proposeVelocity b i cfg dt) = width b"
  "height (proposeVelocity b i cfg dt) = height b"
  by (simp_all add: proposeVelocity_def integrate_as_cut updateTimers_def jumpTrigger_def
      cutJump_def Let_def)


subsection \<open>MotionIntegrator: gravity and the cut of a jump\<close>






text \<open>
  Claim C7. When the jump is released while velocity.y is negative, the integrator
  multiplies velocity.y by exactly 0.5, which strictly reduces its magnitude; when
  velocity.y is not negative the release leaves it as it is. The velocity meant is
  the one the integrator holds when it reaches the rule, after gravity and the jump
  trigger: a call with the release differs from the same call without it by that
  factor and nothing else.
\<close>

theorem release_halves_rising_velocity:
  "cutJump i b =
     (if jumpJustReleased i \<and> vel_y b < 0 then b\<lparr>vel_y := vel_y b * 0.5\<rparr> else b) \<and>
   (jumpJustReleased i \<and> vel_y b < 0 \<longrightarrow>
      vel_y (cutJump i b) = 0.5 * vel_y b \<and> \<bar>vel_y (cutJump i b)\<bar> < \<bar>vel_y b\<bar>) \<and>
   (0 \<le> vel_y b \<longrightarrow> vel_y (cutJump i b) = vel_y b) \<and>
   vel_y (integrate b (i\<lparr>jumpJustReleased := True\<rparr>) cfg dt) =
     (if vel_y (integrate b (i\<lparr>jumpJustReleased := False\<rparr>) cfg dt) < 0
      then 0.5 * vel_y (integrate b (i\<lparr>jumpJustReleased := False\<rparr>) cfg dt)
      else vel_y (integrate b (i\<lparr>jumpJustReleased := False\<rparr>) cfg dt))"
  by (simp add: integrate_as_cut cutJump_def)

theorem release_halves_rising_velocity_witness:
  "vel_y (cutJump (noIntent\<lparr>jumpJustReleased := True\<rparr>) (standing\<lparr>vel_y := - 400\<rparr>)) = - 200 \<and>
   vel_y (cutJump (noIntent\<lparr>jumpJustReleased := True\<rparr>) (standing\<lparr>vel_y := 100\<rparr>)) = 100"
  using release_halves_rising_velocity
    [of "noIntent\<lparr>jumpJustReleased := True\<rparr>" "standing\<lparr>vel_y := - 400\<rparr>" PLAYER_CONFIG 0]
    release_halves_rising_velocity
    [of "noIntent\<lparr>jumpJustReleased := True\<rparr>" "standing\<lparr>vel_y := 100\<rparr>" PLAYER_CONFIG 0]
  by (simp add: noIntent_def standing_def)

subsection \<open>A tick with \<Delta>t = 0\<close>







subsection \<open>JumpAssist: the coyote window\<close>









subsection \<open>The clamped approach, and a body at rest\<close>





lemma targetVelocity_noIntent [simp]: "targetVelocity cfg noIntent = 0"
  by (simp add: targetVelocity_def noIntent_def)









subsection \<open>CollisionResolver: what a resolution guarantees\<close>


lemma cell_unique:
  fixes ts c :: real
  assumes "0 < ts" and "of_int k * ts \<le> c" and "c < (of_int k + 1) * ts"
  shows "cellOf ts c = k"
proof -
  have "of_int k \<le> c / ts" using assms by (simp add: pos_le_divide_eq)
  moreover have "c / ts < of_int k + 1" using assms by (simp add: pos_divide_less_eq)
  ultimately show ?thesis unfolding cellOf_def by (simp add: floor_eq_iff)
qed

















lemma centre_in_cell:
  fixes ts :: real
  assumes "0 < ts"
  shows "cellOf ts ((of_int m + 1 / 2) * ts) = m"
  using assms by (intro cell_unique) (simp_all add: algebra_simps)








end
